theory Spec2Isabelle
  imports Main "HOL-Library.Sublist"
begin

section \<open>Go values shared by all packages\<close>

text \<open>
  Go strings are byte sequences; they are modelled as \<open>string\<close> (a list of 8-bit
  characters), so \<open>length\<close> is Go's \<open>len\<close>. A nil slice and an empty slice are both
  the empty list (the code only ever asks for their length or ranges over them). A nil
  pointer is \<open>None\<close>.
\<close>

subsection \<open>Errors\<close>

text \<open>
  An \<open>error\<close> value is one of the two sentinel errors the code tests with
  \<open>errors.Is\<close>, a plain message (\<open>errors.New\<close>, or \<open>fmt.Errorf\<close> without \<open>%w\<close>),
  or \<open>fmt.Errorf(pre + "%w", err)\<close>, which keeps the wrapped error reachable. In
  every use of \<open>%w\<close> in the source the verb is the last thing of the format string.
\<close>

datatype error =
    ErrNotFound
  | AsyncTimeoutErr
  | New string
  | Wrap string error

fun Error :: "error \<Rightarrow> string" where
  "Error ErrNotFound = ''not found''"
| "Error AsyncTimeoutErr = ''Timeout while waiting for async job to finish''"
| "Error (New msg) = msg"
| "Error (Wrap pre err) = pre @ Error err"

text \<open>
  \<open>errors.Is\<close> walks the chain of wrapped errors and compares each link with the target.
  It is only ever called with a sentinel as its target.
\<close>

fun errors_Is :: "error \<Rightarrow> error \<Rightarrow> bool" where
  "errors_Is (Wrap pre err) target = (Wrap pre err = target \<or> errors_Is err target)"
| "errors_Is err target = (err = target)"

text \<open>
  What a call produces: a value, an error, or a run-time panic (an index out of range, a
  nil dereference), which unwinds through every caller. A Go function that returns only
  \<open>error\<close> produces \<open>Ok ()\<close> for nil.
\<close>

datatype 'a result = Ok 'a | Err error | Panic

subsection \<open>Package strings and the other library functions\<close>

text \<open>
  \<open>strings.ToLower\<close> has an ASCII path, which adds \<open>'a' - 'A'\<close> to the bytes
  \<open>'A'..'Z'\<close>, and a Unicode path for a string with a byte \<open>\<ge> 0x80\<close>. The Unicode
  mapping, \<open>strings.TrimSpace\<close>, the \<open>%q\<close> verb and the two compressors belong to the Go
  library; the program is modelled over any behaviour of theirs.
\<close>

record golib =
  unicode_ToLower :: "string \<Rightarrow> string"
  TrimSpace :: "string \<Rightarrow> string"
  Quote :: "string \<Rightarrow> string"
  zip_Create :: "string \<Rightarrow> error option"
  zip_Write :: "string \<Rightarrow> string \<Rightarrow> error option"
  zip_Close :: "string \<Rightarrow> string \<Rightarrow> error + string"
  gzip_Write :: "string \<Rightarrow> error option"
  gzip_Close :: "string \<Rightarrow> error + string"

definition isASCII :: "string \<Rightarrow> bool" where
  "isASCII s = list_all (\<lambda>c. (of_char c :: nat) < 128) s"

definition lowerASCII :: "char \<Rightarrow> char" where
  "lowerASCII c =
     (if 65 \<le> (of_char c :: nat) \<and> (of_char c :: nat) \<le> 90
      then char_of ((of_char c :: nat) + 32) else c)"

definition ToLower :: "golib \<Rightarrow> string \<Rightarrow> string" where
  "ToLower lib s = (if isASCII s then map lowerASCII s else unicode_ToLower lib s)"

text \<open>\<open>strings.Contains\<close>: the substring starts at some position of \<open>s\<close>.\<close>

fun Contains :: "string \<Rightarrow> string \<Rightarrow> bool" where
  "Contains [] substr = (substr = [])"
| "Contains (c # s) substr = (prefix substr (c # s) \<or> Contains s substr)"

section \<open>Package config\<close>

subsection \<open>The UUID pattern\<close>

text \<open>
  \<open>uuidRegex\<close> is a sequence of fixed-width items between \<open>^\<close> and \<open>$\<close>: a run of
  exactly \<open>n\<close> characters of the class \<open>[0-9a-fA-F]\<close>, or a literal character. Go's
  \<open>$\<close> (without the multi-line flag) matches at the end of the text only.
\<close>

datatype re_item = HexDigits nat | Literal char

definition isHexDigit :: "char \<Rightarrow> bool" where
  "isHexDigit c =
     (let n = (of_char c :: nat)
      in (48 \<le> n \<and> n \<le> 57) \<or> (97 \<le> n \<and> n \<le> 102) \<or> (65 \<le> n \<and> n \<le> 70))"

fun matchItem :: "re_item \<Rightarrow> string \<Rightarrow> string option" where
  "matchItem (Literal c) [] = None"
| "matchItem (Literal c) (x # rest) = (if x = c then Some rest else None)"
| "matchItem (HexDigits 0) s = Some s"
| "matchItem (HexDigits (Suc n)) [] = None"
| "matchItem (HexDigits (Suc n)) (x # rest) =
     (if isHexDigit x then matchItem (HexDigits n) rest else None)"

fun MatchString :: "re_item list \<Rightarrow> string \<Rightarrow> bool" where
  "MatchString [] s = (s = [])"
| "MatchString (i # items) s =
     (case matchItem i s of None \<Rightarrow> False | Some rest \<Rightarrow> MatchString items rest)"

definition uuidRegex :: "re_item list" where
  "uuidRegex =
     [HexDigits 8, Literal (CHR ''-''), HexDigits 4, Literal (CHR ''-''), HexDigits 4,
      Literal (CHR ''-''), HexDigits 4, Literal (CHR ''-''), HexDigits 12]"

definition isUUID :: "string \<Rightarrow> bool" where
  "isUUID s = MatchString uuidRegex s"

subsection \<open>Configuration and the platform's by-name lookups\<close>

record resolvedIDs =
  resolved_ZoneID :: string
  resolved_ServiceOfferingID :: string
  resolved_TemplateID :: string
  resolved_ProjectID :: string

record Config =
  APIURL :: string
  APIKey :: string
  Secret :: string
  VerifySSL :: bool
  Zone :: string
  ServiceOffering :: string
  Template :: string
  Project :: string
  cfg_SSHKeyName :: string
  Expunge :: bool
  resolved :: resolvedIDs

definition cfg_ZoneID :: "Config \<Rightarrow> string" where
  "cfg_ZoneID c = resolved_ZoneID (resolved c)"

definition cfg_ServiceOfferingID :: "Config \<Rightarrow> string" where
  "cfg_ServiceOfferingID c = resolved_ServiceOfferingID (resolved c)"

definition cfg_TemplateID :: "Config \<Rightarrow> string" where
  "cfg_TemplateID c = resolved_TemplateID (resolved c)"

definition cfg_ProjectID :: "Config \<Rightarrow> string" where
  "cfg_ProjectID c = resolved_ProjectID (resolved c)"

text \<open>
  The requests and responses of the platform client, with the fields the code sets and
  reads. A response carries the count the platform reports and, separately, the list of
  records (of pointers, in the source); the code tests the count and indexes the list.
\<close>

record ListProjectsParams =
  lp_name :: "string option"
  lp_listall :: "bool option"

record ListProjectsResponse =
  lp_Count :: int
  Projects :: "string option list"

record ListTemplatesParams =
  lt_templatefilter :: string
  lt_name :: "string option"
  lt_zoneid :: "string option"
  lt_projectid :: "string option"

record ListTemplatesResponse =
  lt_Count :: int
  Templates :: "string option list"

text \<open>
  \<open>Projects\<close> and \<open>Templates\<close> list the \<open>Id\<close> of each returned record (\<open>None\<close> for a
  nil pointer), in the platform's order.
\<close>

record resolver =
  GetZoneByName :: "string \<Rightarrow> error + string"
  GetServiceOfferingByName :: "string \<Rightarrow> error + string"
  ListProjects :: "ListProjectsParams \<Rightarrow> error + ListProjectsResponse"
  ListTemplates :: "ListTemplatesParams \<Rightarrow> error + ListTemplatesResponse"

text \<open>
  \<open>resolveNames\<close> writes \<open>c.resolved\<close> field by field and returns at the first
  failure. The four blocks of the source are the four steps below; each returns the
  updated configuration and what the block produced.
\<close>

text \<open>The two list requests, as the source builds them before the call.\<close>

definition projectParams :: "Config \<Rightarrow> ListProjectsParams" where
  "projectParams c = \<lparr>lp_name = Some (Project c), lp_listall = Some True\<rparr>"

definition templateParams :: "Config \<Rightarrow> ListTemplatesParams" where
  "templateParams c =
     \<lparr>lt_templatefilter = ''executable'', lt_name = Some (Template c),
      lt_zoneid = Some (resolved_ZoneID (resolved c)),
      lt_projectid = (if resolved_ProjectID (resolved c) \<noteq> []
                      then Some (resolved_ProjectID (resolved c)) else None)\<rparr>"

definition resolveZone :: "resolver \<Rightarrow> golib \<Rightarrow> Config \<Rightarrow> Config \<times> unit result" where
  "resolveZone cl lib c =
     (if isUUID (Zone c)
      then (c\<lparr>resolved := (resolved c)\<lparr>resolved_ZoneID := Zone c\<rparr>\<rparr>, Ok ())
      else (case GetZoneByName cl (Zone c) of
              Inl err \<Rightarrow>
                (c, Err (Wrap (''failed to resolve zone '' @ Quote lib (Zone c) @ '': '') err))
            | Inr zid \<Rightarrow> (c\<lparr>resolved := (resolved c)\<lparr>resolved_ZoneID := zid\<rparr>\<rparr>, Ok ())))"

definition resolveServiceOffering ::
  "resolver \<Rightarrow> golib \<Rightarrow> Config \<Rightarrow> Config \<times> unit result" where
  "resolveServiceOffering cl lib c =
     (if isUUID (ServiceOffering c)
      then (c\<lparr>resolved := (resolved c)\<lparr>resolved_ServiceOfferingID := ServiceOffering c\<rparr>\<rparr>,
            Ok ())
      else (case GetServiceOfferingByName cl (ServiceOffering c) of
              Inl err \<Rightarrow>
                (c, Err (Wrap (''failed to resolve service_offering ''
                                 @ Quote lib (ServiceOffering c) @ '': '') err))
            | Inr sid \<Rightarrow>
                (c\<lparr>resolved := (resolved c)\<lparr>resolved_ServiceOfferingID := sid\<rparr>\<rparr>, Ok ())))"

definition resolveProject :: "resolver \<Rightarrow> golib \<Rightarrow> Config \<Rightarrow> Config \<times> unit result" where
  "resolveProject cl lib c =
     (if Project c \<noteq> [] then
        (if isUUID (Project c)
         then (c\<lparr>resolved := (resolved c)\<lparr>resolved_ProjectID := Project c\<rparr>\<rparr>, Ok ())
         else (case ListProjects cl (projectParams c) of
                 Inl err \<Rightarrow>
                   (c, Err (Wrap (''failed to resolve project '' @ Quote lib (Project c)
                                    @ '': '') err))
               | Inr resp \<Rightarrow>
                   if lp_Count resp = 0
                   then (c, Err (New (''project '' @ Quote lib (Project c) @ '' not found'')))
                   else if lp_Count resp > 1
                   then (c, Err (New (''multiple projects found matching ''
                                        @ Quote lib (Project c))))
                   else (case Projects resp of
                           Some pid # _ \<Rightarrow>
                             (c\<lparr>resolved := (resolved c)\<lparr>resolved_ProjectID := pid\<rparr>\<rparr>, Ok ())
                         | _ \<Rightarrow> (c, Panic))))
      else (c, Ok ()))"

definition resolveTemplate :: "resolver \<Rightarrow> golib \<Rightarrow> Config \<Rightarrow> Config \<times> unit result" where
  "resolveTemplate cl lib c =
     (if isUUID (Template c)
      then (c\<lparr>resolved := (resolved c)\<lparr>resolved_TemplateID := Template c\<rparr>\<rparr>, Ok ())
      else (case ListTemplates cl (templateParams c) of
              Inl err \<Rightarrow>
                (c, Err (Wrap (''failed to resolve template '' @ Quote lib (Template c)
                                 @ '': '') err))
            | Inr resp \<Rightarrow>
                if lt_Count resp = 0
                then (c, Err (New (''template '' @ Quote lib (Template c) @ '' not found'')))
                else (case Templates resp of
                        Some tid # _ \<Rightarrow>
                          (c\<lparr>resolved := (resolved c)\<lparr>resolved_TemplateID := tid\<rparr>\<rparr>, Ok ())
                      | _ \<Rightarrow> (c, Panic))))"

definition resolveNames :: "resolver \<Rightarrow> golib \<Rightarrow> Config \<Rightarrow> Config \<times> unit result" where
  "resolveNames cl lib c =
     (case resolveZone cl lib c of
        (c1, Ok _) \<Rightarrow>
          (case resolveServiceOffering cl lib c1 of
             (c2, Ok _) \<Rightarrow>
               (case resolveProject cl lib c2 of
                  (c3, Ok _) \<Rightarrow> resolveTemplate cl lib c3
                | (c3, other) \<Rightarrow> (c3, other))
           | (c2, other) \<Rightarrow> (c2, other))
      | (c1, other) \<Rightarrow> (c1, other))"

section \<open>Package spec\<close>

subsection \<open>Bootstrap parameters\<close>

type_synonym OSType = string
type_synonym OSArch = string

text \<open>The two OS type constants of the common parameter package that the code tests.\<close>

definition Linux :: OSType where
  "Linux = ''linux''"

definition Windows :: OSType where
  "Windows = ''windows''"

text \<open>The tool download record is opaque to this program: it is only passed along.\<close>

datatype RunnerApplicationDownload = RunnerApplicationDownload string

record UserDataOptions =
  DisableUpdatesOnBoot :: bool
  ud_ExtraPackages :: "string list"
  ud_EnableBootDebug :: bool

record BootstrapInstance =
  Name :: string
  Tools :: "RunnerApplicationDownload list"
  OSType :: OSType
  OSArch :: OSArch
  PoolID :: string
  ExtraSpecs :: string
  UserDataOptions :: UserDataOptions

subsection \<open>Extra specs and the runner spec\<close>

text \<open>
  The override document after parsing. Each scalar field is a pointer in the source
  (\<open>*string\<close>, \<open>*bool\<close>): \<open>None\<close> is an absent field, \<open>Some v\<close> a present one. The
  embedded boot-tooling customisation is not read by the functions modelled here.
\<close>

record extraSpecs =
  extra_ZoneID :: "string option"
  extra_ServiceOfferingID :: "string option"
  extra_TemplateID :: "string option"
  extra_NetworkIDs :: "string list"
  extra_SSHKeyName :: "string option"
  extra_ProjectID :: "string option"
  extra_DisableUpdates :: "bool option"
  extra_EnableBootDebug :: "bool option"
  extra_ExtraPackages :: "string list"

text \<open>The zero value \<open>extraSpecs{}\<close>.\<close>

definition emptyExtraSpecs :: extraSpecs where
  "emptyExtraSpecs = \<lparr>extra_ZoneID = None, extra_ServiceOfferingID = None,
     extra_TemplateID = None, extra_NetworkIDs = [], extra_SSHKeyName = None,
     extra_ProjectID = None, extra_DisableUpdates = None, extra_EnableBootDebug = None,
     extra_ExtraPackages = []\<rparr>"

record RunnerSpec =
  ZoneID :: string
  ServiceOfferingID :: string
  TemplateID :: string
  NetworkIDs :: "string list"
  SSHKeyName :: string
  ProjectID :: string
  DisableUpdates :: bool
  EnableBootDebug :: bool
  ExtraPackages :: "string list"
  spec_Tools :: RunnerApplicationDownload
  BootstrapParams :: BootstrapInstance
  ControllerID :: string

text \<open>
  The collaborators of the package: the tool lookup (a replaceable function variable in
  the source), the JSON schema validator and decoder, and the boot configuration
  renderer of the common library.
\<close>

record specdeps =
  DefaultToolFetch ::
    "OSType \<Rightarrow> OSArch \<Rightarrow> RunnerApplicationDownload list \<Rightarrow> error + RunnerApplicationDownload"
  gojsonschema_Validate :: "string \<Rightarrow> error + (bool \<times> string)"
  json_Unmarshal :: "string \<Rightarrow> error + extraSpecs"
  GetCloudConfig ::
    "BootstrapInstance \<Rightarrow> RunnerApplicationDownload \<Rightarrow> string \<Rightarrow> error + string"

definition jsonSchemaValidation :: "specdeps \<Rightarrow> string \<Rightarrow> error option" where
  "jsonSchemaValidation deps schema =
     (case gojsonschema_Validate deps schema of
        Inl err \<Rightarrow> Some (Wrap ''failed to validate schema: '' err)
      | Inr (valid, errs) \<Rightarrow>
          if \<not> valid then Some (New (''schema validation failed: '' @ errs)) else None)"

definition newExtraSpecsFromBootstrapData ::
  "specdeps \<Rightarrow> BootstrapInstance \<Rightarrow> extraSpecs result" where
  "newExtraSpecsFromBootstrapData deps data =
     (if length (ExtraSpecs data) = 0 then Ok emptyExtraSpecs
      else (case jsonSchemaValidation deps (ExtraSpecs data) of
              Some err \<Rightarrow> Err (Wrap ''failed to validate extra specs: '' err)
            | None \<Rightarrow>
                (case json_Unmarshal deps (ExtraSpecs data) of
                   Inl err \<Rightarrow> Err (Wrap ''failed to unmarshal extra specs: '' err)
                 | Inr spec \<Rightarrow> Ok spec)))"

text \<open>
  \<open>MergeExtraSpecs\<close> mutates its receiver; the model returns the updated spec. The
  eight guarded assignments are kept in the order of the source.
\<close>

definition MergeExtraSpecs :: "RunnerSpec \<Rightarrow> extraSpecs option \<Rightarrow> RunnerSpec" where
  "MergeExtraSpecs r extra =
     (case extra of
        None \<Rightarrow> r
      | Some x \<Rightarrow>
          let r1 = (case extra_ZoneID x of
                      Some v \<Rightarrow> if v \<noteq> [] then r\<lparr>ZoneID := v\<rparr> else r
                    | None \<Rightarrow> r);
              r2 = (case extra_ServiceOfferingID x of
                      Some v \<Rightarrow> if v \<noteq> [] then r1\<lparr>ServiceOfferingID := v\<rparr> else r1
                    | None \<Rightarrow> r1);
              r3 = (case extra_TemplateID x of
                      Some v \<Rightarrow> if v \<noteq> [] then r2\<lparr>TemplateID := v\<rparr> else r2
                    | None \<Rightarrow> r2);
              r4 = (if length (extra_NetworkIDs x) > 0
                    then r3\<lparr>NetworkIDs := extra_NetworkIDs x\<rparr> else r3);
              r5 = (case extra_SSHKeyName x of
                      Some v \<Rightarrow> if v \<noteq> [] then r4\<lparr>SSHKeyName := v\<rparr> else r4
                    | None \<Rightarrow> r4);
              r6 = (case extra_ProjectID x of
                      Some v \<Rightarrow> if v \<noteq> [] then r5\<lparr>ProjectID := v\<rparr> else r5
                    | None \<Rightarrow> r5);
              r7 = (case extra_DisableUpdates x of
                      Some b \<Rightarrow> r6\<lparr>DisableUpdates := b\<rparr>
                    | None \<Rightarrow> r6);
              r8 = (case extra_EnableBootDebug x of
                      Some b \<Rightarrow> r7\<lparr>EnableBootDebug := b\<rparr>
                    | None \<Rightarrow> r7)
          in r8)"

definition Validate :: "RunnerSpec \<Rightarrow> error option" where
  "Validate r =
     (if ZoneID r = [] then Some (New ''missing zone_id'')
      else if ServiceOfferingID r = [] then Some (New ''missing service_offering_id'')
      else if TemplateID r = [] then Some (New ''missing template_id'')
      else if Name (BootstrapParams r) = [] then Some (New ''missing bootstrap params'')
      else None)"

text \<open>
  The base spec takes its identifiers from the configuration (the zone, offering,
  template and project identifiers the configuration holds after name resolution, and the
  SSH key name); every field the literal does not name has its zero value.
\<close>

definition GetRunnerSpecFromBootstrapParams ::
  "specdeps \<Rightarrow> Config \<Rightarrow> BootstrapInstance \<Rightarrow> string \<Rightarrow> RunnerSpec result" where
  "GetRunnerSpecFromBootstrapParams deps cfg data controllerID =
     (case DefaultToolFetch deps (OSType data) (OSArch data) (Tools data) of
        Inl err \<Rightarrow> Err (New (''failed to get tools: '' @ Error err))
      | Inr tools \<Rightarrow>
          (case newExtraSpecsFromBootstrapData deps data of
             Err err \<Rightarrow> Err (Wrap ''error loading extra specs: '' err)
           | Panic \<Rightarrow> Panic
           | Ok extra \<Rightarrow>
               let spec = MergeExtraSpecs
                     \<lparr>ZoneID = cfg_ZoneID cfg,
                      ServiceOfferingID = cfg_ServiceOfferingID cfg,
                      TemplateID = cfg_TemplateID cfg,
                      NetworkIDs = [],
                      SSHKeyName = cfg_SSHKeyName cfg,
                      ProjectID = cfg_ProjectID cfg,
                      DisableUpdates = False,
                      EnableBootDebug = False,
                      ExtraPackages = extra_ExtraPackages extra,
                      spec_Tools = tools,
                      BootstrapParams = data,
                      ControllerID = controllerID\<rparr> (Some extra)
               in (case Validate spec of
                     Some err \<Rightarrow> Err (Wrap ''error validating spec: '' err)
                   | None \<Rightarrow> Ok spec)))"

subsection \<open>User data: compression and base64\<close>

text \<open>
  \<open>base64.StdEncoding\<close>: the standard alphabet, three bytes to four characters, with
  \<open>=\<close> padding of the last group.
\<close>

definition encodeStd :: string where
  "encodeStd = ''ABCDEFGHIJKLMNOPQRSTUVWXYZabcdefghijklmnopqrstuvwxyz0123456789+/''"

definition enc :: "nat \<Rightarrow> char" where
  "enc n = encodeStd ! n"

fun EncodeToString :: "string \<Rightarrow> string" where
  "EncodeToString (a # b # c # rest) =
     (let x = (of_char a :: nat); y = (of_char b :: nat); z = (of_char c :: nat)
      in [enc (x div 4), enc ((x mod 4) * 16 + y div 16), enc ((y mod 16) * 4 + z div 64),
          enc (z mod 64)] @ EncodeToString rest)"
| "EncodeToString [a, b] =
     (let x = (of_char a :: nat); y = (of_char b :: nat)
      in [enc (x div 4), enc ((x mod 4) * 16 + y div 16), enc ((y mod 16) * 4), CHR ''=''])"
| "EncodeToString [a] =
     (let x = (of_char a :: nat)
      in [enc (x div 4), enc ((x mod 4) * 16), CHR ''='', CHR ''=''])"
| "EncodeToString [] = []"

text \<open>
  The decoder a reader of the user data applies: four characters to three bytes, the
  last group possibly padded. It rejects a character outside the alphabet and a length
  that is not a multiple of four.
\<close>

definition dec :: "char \<Rightarrow> nat option" where
  "dec c =
     (let n = (of_char c :: nat)
      in if 65 \<le> n \<and> n \<le> 90 then Some (n - 65)
         else if 97 \<le> n \<and> n \<le> 122 then Some (n - 71)
         else if 48 \<le> n \<and> n \<le> 57 then Some (n + 4)
         else if n = 43 then Some 62
         else if n = 47 then Some 63
         else None)"

fun DecodeString :: "string \<Rightarrow> string option" where
  "DecodeString [] = Some []"
| "DecodeString [p, q, r, s] =
     (if r = CHR ''='' \<and> s = CHR ''='' then
        (case (dec p, dec q) of
           (Some a, Some b) \<Rightarrow> Some [char_of (a * 4 + b div 16)]
         | _ \<Rightarrow> None)
      else if s = CHR ''='' then
        (case (dec p, dec q, dec r) of
           (Some a, Some b, Some c) \<Rightarrow>
             Some [char_of (a * 4 + b div 16), char_of ((b mod 16) * 16 + c div 4)]
         | _ \<Rightarrow> None)
      else
        (case (dec p, dec q, dec r, dec s) of
           (Some a, Some b, Some c, Some d) \<Rightarrow>
             Some [char_of (a * 4 + b div 16), char_of ((b mod 16) * 16 + c div 4),
                   char_of ((c mod 4) * 64 + d)]
         | _ \<Rightarrow> None))"
| "DecodeString (p # q # r # s # rest) =
     (case (dec p, dec q, dec r, dec s) of
        (Some a, Some b, Some c, Some d) \<Rightarrow>
          (case DecodeString rest of
             Some t \<Rightarrow>
               Some ([char_of (a * 4 + b div 16), char_of ((b mod 16) * 16 + c div 4),
                      char_of ((c mod 4) * 64 + d)] @ t)
           | None \<Rightarrow> None)
      | _ \<Rightarrow> None)"
| "DecodeString _ = None"

text \<open>
  \<open>maybeCompressUserdata\<close>: below \<open>1 << 14\<close> bytes the data is returned as it is.
  Otherwise the Windows branch creates the archive entry \<open>udata\<close>, writes the data and
  closes the archive; every other OS type writes to a gzip stream and closes it. Each
  writer step can fail, with the wrapping the source gives it.
\<close>

definition maybeCompressUserdata :: "golib \<Rightarrow> string \<Rightarrow> OSType \<Rightarrow> string result" where
  "maybeCompressUserdata lib udata targetOS =
     (if length udata < 2 ^ 14 then Ok udata
      else if targetOS = Windows then
        (case zip_Create lib ''udata'' of
           Some err \<Rightarrow> Err err
         | None \<Rightarrow>
             (case zip_Write lib ''udata'' udata of
                Some err \<Rightarrow> Err (Wrap ''failed to compress cloud config: '' err)
              | None \<Rightarrow>
                  (case zip_Close lib ''udata'' udata of
                     Inl err \<Rightarrow> Err err
                   | Inr b \<Rightarrow> Ok b)))
      else
        (case gzip_Write lib udata of
           Some err \<Rightarrow> Err (Wrap ''failed to compress cloud config: '' err)
         | None \<Rightarrow>
             (case gzip_Close lib udata of
                Inl err \<Rightarrow> Err err
              | Inr b \<Rightarrow> Ok b)))"

text \<open>
  The payload \<open>ComposeUserData\<close> hands to \<open>maybeCompressUserdata\<close>: the rendered boot
  configuration, wrapped in a \<open>powershell\<close> element on Windows.
\<close>

definition userdataPayload :: "OSType \<Rightarrow> string \<Rightarrow> string" where
  "userdataPayload os cloudCfg =
     (if os = Windows then ''<powershell>'' @ cloudCfg @ ''</powershell>'' else cloudCfg)"

text \<open>The copy of the bootstrap parameters that carries the resolved feature flags.\<close>

definition userdataBootstrapParams :: "RunnerSpec \<Rightarrow> BootstrapInstance" where
  "userdataBootstrapParams r =
     (BootstrapParams r)
       \<lparr>UserDataOptions := (UserDataOptions (BootstrapParams r))
          \<lparr>DisableUpdatesOnBoot := DisableUpdates r,
           ud_ExtraPackages := ExtraPackages r,
           ud_EnableBootDebug := EnableBootDebug r\<rparr>\<rparr>"

definition ComposeUserData :: "golib \<Rightarrow> specdeps \<Rightarrow> RunnerSpec \<Rightarrow> string result" where
  "ComposeUserData lib deps r =
     (let bootstrapParams = userdataBootstrapParams r
      in if OSType bootstrapParams = Linux \<or> OSType bootstrapParams = Windows then
           (case GetCloudConfig deps bootstrapParams (spec_Tools r) (Name bootstrapParams) of
              Inl err \<Rightarrow> Err (Wrap ''failed to generate userdata: '' err)
            | Inr cloudCfg \<Rightarrow>
                (case maybeCompressUserdata lib
                        (userdataPayload (OSType bootstrapParams) cloudCfg)
                        (OSType bootstrapParams) of
                   Ok udata \<Rightarrow> Ok (EncodeToString udata)
                 | Err err \<Rightarrow> Err err
                 | Panic \<Rightarrow> Panic))
         else Err (New (''unsupported OS type for cloud config: '' @ OSType bootstrapParams)))"

section \<open>Package util\<close>

record Tags =
  Key :: string
  Value :: string

record VirtualMachine =
  Id :: string
  Displayname :: string
  State :: string
  vm_Tags :: "Tags list"

text \<open>
  The instance status is a string type of the common library; the three constants the
  code assigns, and the zero value of an instance record that assigns none.
\<close>

datatype InstanceStatus =
    InstanceRunning
  | InstanceStopped
  | InstanceStatusUnknown
  | InstanceStatusZero

record ProviderInstance =
  ProviderID :: string
  inst_Name :: string
  inst_OSType :: OSType
  inst_OSArch :: OSArch
  Status :: InstanceStatus

text \<open>The zero value \<open>params.ProviderInstance{}\<close>.\<close>

definition emptyProviderInstance :: ProviderInstance where
  "emptyProviderInstance = \<lparr>ProviderID = [], inst_Name = [], inst_OSType = [],
     inst_OSArch = [], Status = InstanceStatusZero\<rparr>"

text \<open>One round of the loop over the tags of the machine.\<close>

definition applyTag :: "ProviderInstance \<Rightarrow> Tags \<Rightarrow> ProviderInstance" where
  "applyTag inst tag =
     (if Key tag = ''Name'' then
        (if inst_Name inst = [] then inst\<lparr>inst_Name := Value tag\<rparr> else inst)
      else if Key tag = ''OSType'' then inst\<lparr>inst_OSType := Value tag\<rparr>
      else if Key tag = ''OSArch'' then inst\<lparr>inst_OSArch := Value tag\<rparr>
      else inst)"

text \<open>The switch over the lower-cased state.\<close>

definition statusOfState :: "string \<Rightarrow> InstanceStatus" where
  "statusOfState s =
     (if s = ''running'' \<or> s = ''starting'' \<or> s = ''migrating'' \<or> s = ''restoring''
         \<or> s = ''stopping'' then InstanceRunning
      else if s = ''stopped'' \<or> s = ''shutdown'' \<or> s = ''destroyed'' \<or> s = ''expunging''
      then InstanceStopped
      else InstanceStatusUnknown)"

text \<open>
  A Go function that returns a value and an error produces \<open>Ok value\<close> for a nil error
  and \<open>Err err\<close> otherwise: beside a non-nil error the source always returns the zero
  value.
\<close>

definition CloudStackInstanceToParamsInstance ::
  "golib \<Rightarrow> VirtualMachine option \<Rightarrow> ProviderInstance result" where
  "CloudStackInstanceToParamsInstance lib vmp =
     (case vmp of
        None \<Rightarrow> Err (New ''nil virtual machine'')
      | Some vm \<Rightarrow>
          if Id vm = [] then Err (New ''virtual machine has empty id'')
          else
            let inst0 = emptyProviderInstance\<lparr>ProviderID := Id vm\<rparr>;
                inst1 = (if Displayname vm \<noteq> [] then inst0\<lparr>inst_Name := Displayname vm\<rparr>
                         else inst0);
                inst2 = foldl applyTag inst1 (vm_Tags vm);
                s = ToLower lib (State vm)
            in Ok (inst2\<lparr>Status := statusOfState s\<rparr>))"

definition IsCloudStackNotFoundErr :: "golib \<Rightarrow> error option \<Rightarrow> bool" where
  "IsCloudStackNotFoundErr lib errp =
     (case errp of
        None \<Rightarrow> False
      | Some err \<Rightarrow>
          if errors_Is err AsyncTimeoutErr then False
          else
            let errLower = ToLower lib (Error err)
            in Contains errLower ''no match found for''
               \<or> Contains errLower ''entity does not exist'')"

section \<open>Package client\<close>

text \<open>
  The platform client is an external collaborator: a set of remote operations, each
  taking a request and answering with a response or an error. \<open>IsID\<close> is the client
  library's test for an opaque identifier. The program is modelled over any behaviour of
  the platform; each remote call it issues is recorded, in order, in a list of calls.
\<close>

record ListVirtualMachinesParams =
  lvm_id :: "string option"
  lvm_name :: "string option"
  lvm_listall :: "bool option"
  lvm_projectid :: "string option"
  lvm_tags :: "(string \<times> string) list option"

definition NewListVirtualMachinesParams :: ListVirtualMachinesParams where
  "NewListVirtualMachinesParams = \<lparr>lvm_id = None, lvm_name = None, lvm_listall = None,
     lvm_projectid = None, lvm_tags = None\<rparr>"

record ListVirtualMachinesResponse =
  lvm_Count :: int
  VirtualMachines :: "VirtualMachine option list"

record DeployVirtualMachineParams =
  dvm_serviceofferingid :: string
  dvm_templateid :: string
  dvm_zoneid :: string
  dvm_name :: "string option"
  dvm_displayname :: "string option"
  dvm_userdata :: "string option"
  dvm_networkids :: "string list option"
  dvm_keypair :: "string option"
  dvm_projectid :: "string option"

definition NewDeployVirtualMachineParams ::
  "string \<Rightarrow> string \<Rightarrow> string \<Rightarrow> DeployVirtualMachineParams" where
  "NewDeployVirtualMachineParams serviceofferingid templateid zoneid =
     \<lparr>dvm_serviceofferingid = serviceofferingid, dvm_templateid = templateid,
      dvm_zoneid = zoneid, dvm_name = None, dvm_displayname = None, dvm_userdata = None,
      dvm_networkids = None, dvm_keypair = None, dvm_projectid = None\<rparr>"

record cloudstack =
  IsID :: "string \<Rightarrow> bool"
  ListVirtualMachines :: "ListVirtualMachinesParams \<Rightarrow> error + ListVirtualMachinesResponse"
  DeployVirtualMachine :: "DeployVirtualMachineParams \<Rightarrow> error + string"
  CreateTags :: "string list \<Rightarrow> string \<Rightarrow> (string \<times> string) list \<Rightarrow> error option"
  StartVirtualMachine :: "string \<Rightarrow> error option"
  StopVirtualMachine :: "string \<Rightarrow> bool \<Rightarrow> error option"
  DestroyVirtualMachine :: "string \<Rightarrow> error option"

datatype call =
    CallListVirtualMachines ListVirtualMachinesParams
  | CallDeployVirtualMachine DeployVirtualMachineParams
  | CallCreateTags "string list" string "(string \<times> string) list"
  | CallStartVirtualMachine string
  | CallStopVirtualMachine string bool
  | CallDestroyVirtualMachine string

definition CreateRunningInstance ::
  "golib \<Rightarrow> specdeps \<Rightarrow> cloudstack \<Rightarrow> RunnerSpec option \<Rightarrow> call list \<times> string result" where
  "CreateRunningInstance lib deps cl specp =
     (case specp of
        None \<Rightarrow> ([], Err (New ''invalid nil runner spec''))
      | Some spec \<Rightarrow>
          (case ComposeUserData lib deps spec of
             Err err \<Rightarrow> ([], Err (Wrap ''failed to compose user data: '' err))
           | Panic \<Rightarrow> ([], Panic)
           | Ok udata \<Rightarrow>
               let p0 = (NewDeployVirtualMachineParams (ServiceOfferingID spec)
                           (TemplateID spec) (ZoneID spec))
                          \<lparr>dvm_name := Some (Name (BootstrapParams spec)),
                           dvm_displayname := Some (Name (BootstrapParams spec)),
                           dvm_userdata := Some udata\<rparr>;
                   p1 = (if length (NetworkIDs spec) > 0
                         then p0\<lparr>dvm_networkids := Some (NetworkIDs spec)\<rparr> else p0);
                   p2 = (if SSHKeyName spec \<noteq> []
                         then p1\<lparr>dvm_keypair := Some (SSHKeyName spec)\<rparr> else p1);
                   p3 = (if ProjectID spec \<noteq> []
                         then p2\<lparr>dvm_projectid := Some (ProjectID spec)\<rparr> else p2)
               in (case DeployVirtualMachine cl p3 of
                     Inl err \<Rightarrow>
                       ([CallDeployVirtualMachine p3],
                        Err (Wrap ''failed to deploy virtual machine: '' err))
                   | Inr respId \<Rightarrow>
                       if respId = []
                       then ([CallDeployVirtualMachine p3],
                             Err (New ''empty VM id in deploy response''))
                       else
                         let tags = [(''GARM_CONTROLLER_ID'', ControllerID spec),
                                     (''GARM_POOL_ID'', PoolID (BootstrapParams spec)),
                                     (''Name'', Name (BootstrapParams spec)),
                                     (''OSType'', OSType (BootstrapParams spec)),
                                     (''OSArch'', OSArch (BootstrapParams spec))];
                             tr = [CallDeployVirtualMachine p3,
                                   CallCreateTags [respId] ''UserVm'' tags]
                         in (case CreateTags cl [respId] ''UserVm'' tags of
                               Some err \<Rightarrow> (tr, Err (Wrap ''failed to tag VM: '' err))
                             | None \<Rightarrow> (tr, Ok respId)))))"

text \<open>
  The two list requests of \<open>FindOneInstance\<close>: by identifier, and by name with the
  controller tag only when a controller identifier is given.
\<close>

definition findByIDParams :: "Config \<Rightarrow> string \<Rightarrow> ListVirtualMachinesParams" where
  "findByIDParams cfg identifier =
     (let p0 = NewListVirtualMachinesParams
                 \<lparr>lvm_id := Some identifier, lvm_listall := Some True\<rparr>
      in if cfg_ProjectID cfg \<noteq> []
         then p0\<lparr>lvm_projectid := Some (cfg_ProjectID cfg)\<rparr> else p0)"

definition findByNameParams :: "Config \<Rightarrow> string \<Rightarrow> string \<Rightarrow> ListVirtualMachinesParams" where
  "findByNameParams cfg controllerID identifier =
     (let p0 = NewListVirtualMachinesParams
                 \<lparr>lvm_name := Some identifier, lvm_listall := Some True\<rparr>;
          p1 = (if cfg_ProjectID cfg \<noteq> []
                then p0\<lparr>lvm_projectid := Some (cfg_ProjectID cfg)\<rparr> else p0)
      in if controllerID \<noteq> []
         then p1\<lparr>lvm_tags := Some [(''GARM_CONTROLLER_ID'', controllerID)]\<rparr>
         else p1)"

definition FindOneInstance ::
  "golib \<Rightarrow> cloudstack \<Rightarrow> Config \<Rightarrow> string \<Rightarrow> string
     \<Rightarrow> call list \<times> VirtualMachine option result" where
  "FindOneInstance lib cl cfg controllerID identifier =
     (if TrimSpace lib identifier = [] then ([], Err (New ''empty identifier''))
      else if IsID cl identifier then
        (let p = findByIDParams cfg identifier
         in ([CallListVirtualMachines p],
             case ListVirtualMachines cl p of
               Inl err \<Rightarrow> Err (Wrap (''failed to get instance '' @ identifier @ '': '') err)
             | Inr resp \<Rightarrow>
                 if lvm_Count resp = 0
                 then Err (Wrap (''no such instance '' @ identifier @ '': '') ErrNotFound)
                 else (case VirtualMachines resp of
                         [] \<Rightarrow> Panic
                       | vm # _ \<Rightarrow> Ok vm)))
      else
        (let p = findByNameParams cfg controllerID identifier
         in ([CallListVirtualMachines p],
             case ListVirtualMachines cl p of
               Inl err \<Rightarrow> Err (Wrap ''failed to list instances: '' err)
             | Inr resp \<Rightarrow>
                 if lvm_Count resp = 0
                 then Err (Wrap (''no such instance '' @ identifier @ '': '') ErrNotFound)
                 else if lvm_Count resp > 1
                 then Err (New (''found more than one instance with name '' @ identifier))
                 else (case VirtualMachines resp of
                         [] \<Rightarrow> Panic
                       | vm # _ \<Rightarrow> Ok vm))))"

text \<open>The filter of \<open>ListInstancesByPool\<close>: nil, destroyed and expunging records are skipped.\<close>

definition keepInstance :: "golib \<Rightarrow> VirtualMachine option \<Rightarrow> bool" where
  "keepInstance lib vmp =
     (case vmp of
        None \<Rightarrow> False
      | Some vm \<Rightarrow>
          let state = ToLower lib (State vm)
          in \<not> (state = ''destroyed'' \<or> state = ''expunging''))"

definition ListInstancesByPool ::
  "golib \<Rightarrow> cloudstack \<Rightarrow> Config \<Rightarrow> string \<Rightarrow> string
     \<Rightarrow> call list \<times> VirtualMachine option list result" where
  "ListInstancesByPool lib cl cfg controllerID poolID =
     (let p0 = NewListVirtualMachinesParams
                 \<lparr>lvm_listall := Some True,
                  lvm_tags := Some [(''GARM_CONTROLLER_ID'', controllerID),
                                    (''GARM_POOL_ID'', poolID)]\<rparr>;
          p = (if cfg_ProjectID cfg \<noteq> []
               then p0\<lparr>lvm_projectid := Some (cfg_ProjectID cfg)\<rparr> else p0)
      in ([CallListVirtualMachines p],
          case ListVirtualMachines cl p of
            Inl err \<Rightarrow> Err (Wrap ''failed to list instances: '' err)
          | Inr resp \<Rightarrow> Ok (filter (keepInstance lib) (VirtualMachines resp))))"

text \<open>
  The three actions look the instance up with an empty controller identifier and then
  read \<open>vm.Id\<close>, which panics on a nil record.
\<close>

definition StartInstance ::
  "golib \<Rightarrow> cloudstack \<Rightarrow> Config \<Rightarrow> string \<Rightarrow> call list \<times> unit result" where
  "StartInstance lib cl cfg identifier =
     (case FindOneInstance lib cl cfg [] identifier of
        (tr, Err err) \<Rightarrow> (tr, Err err)
      | (tr, Panic) \<Rightarrow> (tr, Panic)
      | (tr, Ok None) \<Rightarrow> (tr, Panic)
      | (tr, Ok (Some vm)) \<Rightarrow>
          (tr @ [CallStartVirtualMachine (Id vm)],
           case StartVirtualMachine cl (Id vm) of
             Some err \<Rightarrow> Err (Wrap ''failed to start instance: '' err)
           | None \<Rightarrow> Ok ()))"

definition StopInstance ::
  "golib \<Rightarrow> cloudstack \<Rightarrow> Config \<Rightarrow> string \<Rightarrow> bool \<Rightarrow> call list \<times> unit result" where
  "StopInstance lib cl cfg identifier force =
     (case FindOneInstance lib cl cfg [] identifier of
        (tr, Err err) \<Rightarrow> if errors_Is err ErrNotFound then (tr, Ok ()) else (tr, Err err)
      | (tr, Panic) \<Rightarrow> (tr, Panic)
      | (tr, Ok None) \<Rightarrow> (tr, Panic)
      | (tr, Ok (Some vm)) \<Rightarrow>
          (tr @ [CallStopVirtualMachine (Id vm) force],
           case StopVirtualMachine cl (Id vm) force of
             Some err \<Rightarrow>
               if IsCloudStackNotFoundErr lib (Some err) then Ok ()
               else Err (Wrap ''failed to stop instance: '' err)
           | None \<Rightarrow> Ok ()))"

definition DestroyInstance ::
  "golib \<Rightarrow> cloudstack \<Rightarrow> Config \<Rightarrow> string \<Rightarrow> call list \<times> unit result" where
  "DestroyInstance lib cl cfg identifier =
     (case FindOneInstance lib cl cfg [] identifier of
        (tr, Err err) \<Rightarrow> if errors_Is err ErrNotFound then (tr, Ok ()) else (tr, Err err)
      | (tr, Panic) \<Rightarrow> (tr, Panic)
      | (tr, Ok None) \<Rightarrow> (tr, Panic)
      | (tr, Ok (Some vm)) \<Rightarrow>
          (tr @ [CallDestroyVirtualMachine (Id vm)],
           case DestroyVirtualMachine cl (Id vm) of
             Some err \<Rightarrow>
               if IsCloudStackNotFoundErr lib (Some err) then Ok ()
               else Err (Wrap ''failed to destroy instance: '' err)
           | None \<Rightarrow> Ok ()))"

section \<open>Package provider\<close>

text \<open>
  The provider holds the controller identifier and the client (with its configuration).
  Its log statements have no effect on what an operation returns and are left out.
\<close>

definition CreateInstance ::
  "golib \<Rightarrow> specdeps \<Rightarrow> cloudstack \<Rightarrow> Config \<Rightarrow> string \<Rightarrow> BootstrapInstance
     \<Rightarrow> call list \<times> ProviderInstance result" where
  "CreateInstance lib deps cl cfg controllerID bootstrapParams =
     (case GetRunnerSpecFromBootstrapParams deps cfg bootstrapParams controllerID of
        Err err \<Rightarrow> ([], Err (Wrap ''failed to get runner spec: '' err))
      | Panic \<Rightarrow> ([], Panic)
      | Ok spec \<Rightarrow>
          (case CreateRunningInstance lib deps cl (Some spec) of
             (tr, Err err) \<Rightarrow> (tr, Err (Wrap ''failed to create instance: '' err))
           | (tr, Panic) \<Rightarrow> (tr, Panic)
           | (tr, Ok vmid) \<Rightarrow>
               (tr, Ok \<lparr>ProviderID = vmid,
                         inst_Name = Name (BootstrapParams spec),
                         inst_OSType = OSType (BootstrapParams spec),
                         inst_OSArch = OSArch (BootstrapParams spec),
                         Status = InstanceRunning\<rparr>)))"

definition DeleteInstance ::
  "golib \<Rightarrow> cloudstack \<Rightarrow> Config \<Rightarrow> string \<Rightarrow> call list \<times> unit result" where
  "DeleteInstance lib cl cfg instance =
     (case DestroyInstance lib cl cfg instance of
        (tr, Err err) \<Rightarrow> (tr, Err (Wrap ''failed to delete instance: '' err))
      | (tr, other) \<Rightarrow> (tr, other))"

definition GetInstance ::
  "golib \<Rightarrow> cloudstack \<Rightarrow> Config \<Rightarrow> string \<Rightarrow> string
     \<Rightarrow> call list \<times> ProviderInstance result" where
  "GetInstance lib cl cfg controllerID instance =
     (case FindOneInstance lib cl cfg controllerID instance of
        (tr, Err err) \<Rightarrow>
          if errors_Is err ErrNotFound then (tr, Ok emptyProviderInstance)
          else (tr, Err (Wrap ''failed to get VM details: '' err))
      | (tr, Panic) \<Rightarrow> (tr, Panic)
      | (tr, Ok vm) \<Rightarrow>
          (case CloudStackInstanceToParamsInstance lib vm of
             Err err \<Rightarrow> (tr, Err (Wrap ''failed to convert instance: '' err))
           | other \<Rightarrow> (tr, other)))"

fun convertInstances :: "golib \<Rightarrow> VirtualMachine option list \<Rightarrow> ProviderInstance list result" where
  "convertInstances lib [] = Ok []"
| "convertInstances lib (vm # vms) =
     (case CloudStackInstanceToParamsInstance lib vm of
        Err err \<Rightarrow> Err (Wrap ''failed to convert instance: '' err)
      | Panic \<Rightarrow> Panic
      | Ok inst \<Rightarrow>
          (case convertInstances lib vms of
             Ok insts \<Rightarrow> Ok (inst # insts)
           | other \<Rightarrow> other))"

definition ListInstances ::
  "golib \<Rightarrow> cloudstack \<Rightarrow> Config \<Rightarrow> string \<Rightarrow> string
     \<Rightarrow> call list \<times> ProviderInstance list result" where
  "ListInstances lib cl cfg controllerID poolID =
     (case ListInstancesByPool lib cl cfg controllerID poolID of
        (tr, Err err) \<Rightarrow> (tr, Err (Wrap ''failed to list instances: '' err))
      | (tr, Panic) \<Rightarrow> (tr, Panic)
      | (tr, Ok vms) \<Rightarrow> (tr, convertInstances lib vms))"

definition RemoveAllInstances :: "call list \<times> unit result" where
  "RemoveAllInstances = ([], Ok ())"

definition Stop ::
  "golib \<Rightarrow> cloudstack \<Rightarrow> Config \<Rightarrow> string \<Rightarrow> bool \<Rightarrow> call list \<times> unit result" where
  "Stop lib cl cfg instance force =
     (case StopInstance lib cl cfg instance force of
        (tr, Err err) \<Rightarrow> (tr, Err (Wrap ''failed to stop instance: '' err))
      | (tr, other) \<Rightarrow> (tr, other))"

definition Start ::
  "golib \<Rightarrow> cloudstack \<Rightarrow> Config \<Rightarrow> string \<Rightarrow> call list \<times> unit result" where
  "Start lib cl cfg instance =
     (case StartInstance lib cl cfg instance of
        (tr, Err err) \<Rightarrow> (tr, Err (Wrap ''failed to start instance: '' err))
      | (tr, other) \<Rightarrow> (tr, other))"

section \<open>Sample values\<close>

text \<open>Concrete inputs on which the definitions are run.\<close>

definition bootstrap0 :: BootstrapInstance where
  "bootstrap0 = \<lparr>Name = ''runner-name'', Tools = [], OSType = Linux, OSArch = ''amd64'',
     PoolID = ''p1'', ExtraSpecs = [],
     UserDataOptions = \<lparr>DisableUpdatesOnBoot = False, ud_ExtraPackages = [],
       ud_EnableBootDebug = False\<rparr>\<rparr>"

definition spec0 :: RunnerSpec where
  "spec0 = \<lparr>ZoneID = ''Z'', ServiceOfferingID = ''O'', TemplateID = ''T'', NetworkIDs = [],
     SSHKeyName = ''K'', ProjectID = ''P'', DisableUpdates = True, EnableBootDebug = True,
     ExtraPackages = [], spec_Tools = RunnerApplicationDownload [],
     BootstrapParams = bootstrap0, ControllerID = ''c1''\<rparr>"

text \<open>
  A library instance: the ASCII behaviour of \<open>strings.TrimSpace\<close>, quoting without
  escapes, and stand-in compressors that never fail and store the data behind a header
  (the entry name and its length for the archive, one tag byte for the stream), with the
  readers that undo them.
\<close>

definition asciiSpace :: "char \<Rightarrow> bool" where
  "asciiSpace c =
     (let n = (of_char c :: nat)
      in n = 9 \<or> n = 10 \<or> n = 11 \<or> n = 12 \<or> n = 13 \<or> n = 32)"

definition asciiTrimSpace :: "string \<Rightarrow> string" where
  "asciiTrimSpace s = rev (dropWhile asciiSpace (rev (dropWhile asciiSpace s)))"

definition lib0 :: golib where
  "lib0 = \<lparr>unicode_ToLower = (\<lambda>s. s),
            TrimSpace = asciiTrimSpace,
            Quote = (\<lambda>s. CHR 0x22 # s @ [CHR 0x22]),
            zip_Create = (\<lambda>name. None),
            zip_Write = (\<lambda>name d. None),
            zip_Close = (\<lambda>name d. Inr (char_of (length name) # name @ d)),
            gzip_Write = (\<lambda>d. None),
            gzip_Close = (\<lambda>d. Inr (CHR 0x1F # d))\<rparr>"

definition storedUnzip :: "string \<Rightarrow> (string \<times> string) list option" where
  "storedUnzip a =
     (case a of
        [] \<Rightarrow> None
      | k # rest \<Rightarrow>
          if (of_char k :: nat) \<le> length rest
          then Some [(take (of_char k) rest, drop (of_char k) rest)] else None)"

definition storedGunzip :: "string \<Rightarrow> string option" where
  "storedGunzip a =
     (case a of
        [] \<Rightarrow> None
      | k # rest \<Rightarrow> if k = CHR 0x1F then Some rest else None)"

definition deps0 :: specdeps where
  "deps0 = \<lparr>DefaultToolFetch = (\<lambda>os arch tools. Inr (RunnerApplicationDownload [])),
             gojsonschema_Validate = (\<lambda>doc. Inr (True, [])),
             json_Unmarshal = (\<lambda>doc. Inr emptyExtraSpecs),
             GetCloudConfig = (\<lambda>bp tools name. Inr (replicate 20000 (CHR ''#'')))\<rparr>"

text \<open>
  A platform with five machines: two share the display name \<open>dup\<close>; the stop and
  destroy calls answer "entity does not exist" for \<open>id-gone\<close> and time out for
  \<open>id-slow\<close>. Any other name or identifier matches nothing.
\<close>

definition vmA :: VirtualMachine where
  "vmA = \<lparr>Id = ''id-a'', Displayname = ''dup'', State = ''Running'', vm_Tags = []\<rparr>"

definition vmB :: VirtualMachine where
  "vmB = \<lparr>Id = ''id-b'', Displayname = ''dup'', State = ''Stopped'', vm_Tags = []\<rparr>"

definition vmOne :: VirtualMachine where
  "vmOne = \<lparr>Id = ''id-1'', Displayname = ''one'', State = ''RuNnInG'',
     vm_Tags = [\<lparr>Key = ''OSType'', Value = ''linux''\<rparr>]\<rparr>"

definition vmGone :: VirtualMachine where
  "vmGone = \<lparr>Id = ''id-gone'', Displayname = ''gone'', State = ''Expunging'', vm_Tags = []\<rparr>"

definition vmSlow :: VirtualMachine where
  "vmSlow = \<lparr>Id = ''id-slow'', Displayname = ''slow'', State = ''Error'', vm_Tags = []\<rparr>"

definition actionAnswer :: "string \<Rightarrow> error option" where
  "actionAnswer vmid =
     (if vmid = ''id-gone''
      then Some (New ''Unable to execute API command: Entity Does Not Exist'')
      else if vmid = ''id-slow'' then Some AsyncTimeoutErr
      else None)"

definition cl0 :: cloudstack where
  "cl0 = \<lparr>IsID = isUUID,
           ListVirtualMachines = (\<lambda>p.
             if lvm_name p = Some ''dup''
             then Inr \<lparr>lvm_Count = 2, VirtualMachines = [Some vmA, Some vmB]\<rparr>
             else if lvm_name p = Some ''one''
             then Inr \<lparr>lvm_Count = 1, VirtualMachines = [Some vmOne]\<rparr>
             else if lvm_name p = Some ''gone''
             then Inr \<lparr>lvm_Count = 1, VirtualMachines = [Some vmGone]\<rparr>
             else if lvm_name p = Some ''slow''
             then Inr \<lparr>lvm_Count = 1, VirtualMachines = [Some vmSlow]\<rparr>
             else if lvm_name p = None \<and> lvm_id p = None
             then Inl (New ''No match found for pool'')
             else Inr \<lparr>lvm_Count = 0, VirtualMachines = []\<rparr>),
           DeployVirtualMachine = (\<lambda>p. Inl (New ''No match found for template'')),
           CreateTags = (\<lambda>ids kind tags. None),
           StartVirtualMachine = actionAnswer,
           StopVirtualMachine = (\<lambda>vmid force. actionAnswer vmid),
           DestroyVirtualMachine = actionAnswer\<rparr>"

definition cfg0 :: Config where
  "cfg0 = \<lparr>APIURL = ''https://cloudstack.example.com/client/api'', APIKey = ''key'',
            Secret = ''secret'', VerifySSL = True, Zone = ''us-west-1'',
            ServiceOffering = ''2-4096'', Template = ''gha-runner'', Project = ''infra'',
            cfg_SSHKeyName = [], Expunge = False,
            resolved = \<lparr>resolved_ZoneID = ''Z'', resolved_ServiceOfferingID = ''O'',
                         resolved_TemplateID = ''T'', resolved_ProjectID = []\<rparr>\<rparr>"

text \<open>
  A resolver where the zone and offering names resolve, the project name matches two
  projects and the template name matches two templates.
\<close>

definition rs0 :: resolver where
  "rs0 = \<lparr>GetZoneByName = (\<lambda>n. Inr ''zone-id''),
           GetServiceOfferingByName = (\<lambda>n. Inr ''offering-id''),
           ListProjects = (\<lambda>p. Inr \<lparr>lp_Count = 2, Projects = [Some ''p1'', Some ''p2'']\<rparr>),
           ListTemplates = (\<lambda>p.
             if lt_name p = Some ''gha-runner''
             then Inr \<lparr>lt_Count = 2, Templates = [Some ''t1'', Some ''t2'']\<rparr>
             else Inr \<lparr>lt_Count = 0, Templates = []\<rparr>)\<rparr>"

definition uuidLower :: string where
  "uuidLower = ''d9a16f24-9e15-43a7-afd0-baa96a7e5ef3''"

definition uuidUpper :: string where
  "uuidUpper = ''D9A16F24-9E15-43A7-AFD0-BAA96A7E5EF3''"

definition nonHexSample :: string where
  "nonHexSample = ''zzzzzzzz-zzzz-zzzz-zzzz-zzzzzzzzzzzz''"

section \<open>Merging overrides onto the base spec\<close>

lemma MergeExtraSpecs_ZoneID:
  "ZoneID (MergeExtraSpecs r (Some x)) =
     (case extra_ZoneID x of Some v \<Rightarrow> if v \<noteq> [] then v else ZoneID r | None \<Rightarrow> ZoneID r)"
  by (simp add: MergeExtraSpecs_def Let_def split: option.splits)

lemma MergeExtraSpecs_ServiceOfferingID:
  "ServiceOfferingID (MergeExtraSpecs r (Some x)) =
     (case extra_ServiceOfferingID x of
        Some v \<Rightarrow> if v \<noteq> [] then v else ServiceOfferingID r
      | None \<Rightarrow> ServiceOfferingID r)"
  by (simp add: MergeExtraSpecs_def Let_def split: option.splits)

lemma MergeExtraSpecs_TemplateID:
  "TemplateID (MergeExtraSpecs r (Some x)) =
     (case extra_TemplateID x of
        Some v \<Rightarrow> if v \<noteq> [] then v else TemplateID r
      | None \<Rightarrow> TemplateID r)"
  by (simp add: MergeExtraSpecs_def Let_def split: option.splits)

lemma MergeExtraSpecs_SSHKeyName:
  "SSHKeyName (MergeExtraSpecs r (Some x)) =
     (case extra_SSHKeyName x of
        Some v \<Rightarrow> if v \<noteq> [] then v else SSHKeyName r
      | None \<Rightarrow> SSHKeyName r)"
  by (simp add: MergeExtraSpecs_def Let_def split: option.splits)

lemma MergeExtraSpecs_ProjectID:
  "ProjectID (MergeExtraSpecs r (Some x)) =
     (case extra_ProjectID x of
        Some v \<Rightarrow> if v \<noteq> [] then v else ProjectID r
      | None \<Rightarrow> ProjectID r)"
  by (simp add: MergeExtraSpecs_def Let_def split: option.splits)

lemma MergeExtraSpecs_DisableUpdates:
  "DisableUpdates (MergeExtraSpecs r (Some x)) =
     (case extra_DisableUpdates x of Some b \<Rightarrow> b | None \<Rightarrow> DisableUpdates r)"
  by (simp add: MergeExtraSpecs_def Let_def split: option.splits)

lemma MergeExtraSpecs_EnableBootDebug:
  "EnableBootDebug (MergeExtraSpecs r (Some x)) =
     (case extra_EnableBootDebug x of Some b \<Rightarrow> b | None \<Rightarrow> EnableBootDebug r)"
  by (simp add: MergeExtraSpecs_def Let_def split: option.splits)

text \<open>
  Claim C1. For every base spec and every override document in which a string-valued
  override field (zone, service offering, template, SSH key name, project) is present: if
  it is the empty string, the merged spec keeps the base value of that field; if it is a
  non-empty string, the merged spec has the override value.
\<close>

theorem MergeExtraSpecs_string_override:
  "(extra_ZoneID x = Some v \<longrightarrow>
      ZoneID (MergeExtraSpecs r (Some x)) = (if v = [] then ZoneID r else v)) \<and>
   (extra_ServiceOfferingID x = Some v \<longrightarrow>
      ServiceOfferingID (MergeExtraSpecs r (Some x)) =
        (if v = [] then ServiceOfferingID r else v)) \<and>
   (extra_TemplateID x = Some v \<longrightarrow>
      TemplateID (MergeExtraSpecs r (Some x)) = (if v = [] then TemplateID r else v)) \<and>
   (extra_SSHKeyName x = Some v \<longrightarrow>
      SSHKeyName (MergeExtraSpecs r (Some x)) = (if v = [] then SSHKeyName r else v)) \<and>
   (extra_ProjectID x = Some v \<longrightarrow>
      ProjectID (MergeExtraSpecs r (Some x)) = (if v = [] then ProjectID r else v))"
proof (intro conjI impI)
  assume "extra_ZoneID x = Some v"
  then show "ZoneID (MergeExtraSpecs r (Some x)) = (if v = [] then ZoneID r else v)"
    by (simp add: MergeExtraSpecs_ZoneID)
next
  assume "extra_ServiceOfferingID x = Some v"
  then show "ServiceOfferingID (MergeExtraSpecs r (Some x)) =
      (if v = [] then ServiceOfferingID r else v)"
    by (simp add: MergeExtraSpecs_ServiceOfferingID)
next
  assume "extra_TemplateID x = Some v"
  then show "TemplateID (MergeExtraSpecs r (Some x)) = (if v = [] then TemplateID r else v)"
    by (simp add: MergeExtraSpecs_TemplateID)
next
  assume "extra_SSHKeyName x = Some v"
  then show "SSHKeyName (MergeExtraSpecs r (Some x)) = (if v = [] then SSHKeyName r else v)"
    by (simp add: MergeExtraSpecs_SSHKeyName)
next
  assume "extra_ProjectID x = Some v"
  then show "ProjectID (MergeExtraSpecs r (Some x)) = (if v = [] then ProjectID r else v)"
    by (simp add: MergeExtraSpecs_ProjectID)
qed

theorem MergeExtraSpecs_string_override_witness:
  "TemplateID (MergeExtraSpecs spec0 (Some (emptyExtraSpecs\<lparr>extra_TemplateID := Some []\<rparr>)))
     = ''T'' \<and>
   TemplateID (MergeExtraSpecs spec0 (Some (emptyExtraSpecs\<lparr>extra_TemplateID := Some ''T2''\<rparr>)))
     = ''T2''"
  using MergeExtraSpecs_string_override
          [of "emptyExtraSpecs\<lparr>extra_TemplateID := Some []\<rparr>" "[]" spec0]
        MergeExtraSpecs_string_override
          [of "emptyExtraSpecs\<lparr>extra_TemplateID := Some ''T2''\<rparr>" "''T2''" spec0]
  by (simp add: spec0_def)

text \<open>
  Claim C2, as stated, asks that a boolean toggle present with the value false leave the
  base value unchanged. The source assigns a present boolean whatever its value: on a
  base spec whose \<open>DisableUpdates\<close> is true, an override document with
  \<open>disable_updates\<close> present and false turns it to false.
\<close>

theorem MergeExtraSpecs_present_false_counterexample:
  "DisableUpdates
     (MergeExtraSpecs spec0 (Some (emptyExtraSpecs\<lparr>extra_DisableUpdates := Some False\<rparr>)))
   \<noteq> DisableUpdates spec0"
  by (simp add: MergeExtraSpecs_DisableUpdates spec0_def)

text \<open>
  Claim C2, amended. A string-valued override field replaces the base value only when it
  is present and non-empty: absent or present-empty leaves the base value unchanged. A
  boolean toggle (\<open>disable_updates\<close>, \<open>enable_boot_debug\<close>) replaces the base value
  whenever it is present, also when its value is false; absent leaves the base value
  unchanged. A nil override document changes nothing.
\<close>

theorem MergeExtraSpecs_scalar_override:
  "ZoneID (MergeExtraSpecs r (Some x)) =
     (case extra_ZoneID x of Some v \<Rightarrow> if v \<noteq> [] then v else ZoneID r | None \<Rightarrow> ZoneID r) \<and>
   ServiceOfferingID (MergeExtraSpecs r (Some x)) =
     (case extra_ServiceOfferingID x of
        Some v \<Rightarrow> if v \<noteq> [] then v else ServiceOfferingID r
      | None \<Rightarrow> ServiceOfferingID r) \<and>
   TemplateID (MergeExtraSpecs r (Some x)) =
     (case extra_TemplateID x of
        Some v \<Rightarrow> if v \<noteq> [] then v else TemplateID r
      | None \<Rightarrow> TemplateID r) \<and>
   SSHKeyName (MergeExtraSpecs r (Some x)) =
     (case extra_SSHKeyName x of
        Some v \<Rightarrow> if v \<noteq> [] then v else SSHKeyName r
      | None \<Rightarrow> SSHKeyName r) \<and>
   ProjectID (MergeExtraSpecs r (Some x)) =
     (case extra_ProjectID x of
        Some v \<Rightarrow> if v \<noteq> [] then v else ProjectID r
      | None \<Rightarrow> ProjectID r) \<and>
   DisableUpdates (MergeExtraSpecs r (Some x)) =
     (case extra_DisableUpdates x of Some b \<Rightarrow> b | None \<Rightarrow> DisableUpdates r) \<and>
   EnableBootDebug (MergeExtraSpecs r (Some x)) =
     (case extra_EnableBootDebug x of Some b \<Rightarrow> b | None \<Rightarrow> EnableBootDebug r) \<and>
   MergeExtraSpecs r None = r"
  by (simp only: MergeExtraSpecs_ZoneID MergeExtraSpecs_ServiceOfferingID
        MergeExtraSpecs_TemplateID MergeExtraSpecs_SSHKeyName MergeExtraSpecs_ProjectID
        MergeExtraSpecs_DisableUpdates MergeExtraSpecs_EnableBootDebug)
     (simp add: MergeExtraSpecs_def)

theorem MergeExtraSpecs_scalar_override_witness:
  "DisableUpdates
     (MergeExtraSpecs spec0 (Some (emptyExtraSpecs\<lparr>extra_DisableUpdates := Some False\<rparr>)))
     = False \<and>
   EnableBootDebug
     (MergeExtraSpecs spec0 (Some (emptyExtraSpecs\<lparr>extra_DisableUpdates := Some False\<rparr>)))
     = True \<and>
   ZoneID
     (MergeExtraSpecs spec0 (Some (emptyExtraSpecs\<lparr>extra_ZoneID := Some []\<rparr>)))
     = ''Z''"
  using MergeExtraSpecs_scalar_override
          [of spec0 "emptyExtraSpecs\<lparr>extra_DisableUpdates := Some False\<rparr>"]
        MergeExtraSpecs_scalar_override
          [of spec0 "emptyExtraSpecs\<lparr>extra_ZoneID := Some []\<rparr>"]
  by (simp add: spec0_def emptyExtraSpecs_def)

section \<open>Identifier detection\<close>

lemma matchItem_HexDigits:
  "matchItem (HexDigits n) s =
     (if n \<le> length s \<and> list_all isHexDigit (take n s) then Some (drop n s) else None)"
proof (induction n arbitrary: s)
  case 0
  show ?case by simp
next
  case (Suc n)
  show ?case
    by (cases s) (simp_all add: Suc)
qed

lemma MatchString_HexDigits:
  "MatchString (HexDigits n # items) s \<longleftrightarrow>
     n \<le> length s \<and> list_all isHexDigit (take n s) \<and> MatchString items (drop n s)"
  by (auto simp: matchItem_HexDigits)

lemma MatchString_Literal:
  "MatchString (Literal c # items) s \<longleftrightarrow>
     0 < length s \<and> s ! 0 = c \<and> MatchString items (drop 1 s)"
  by (cases s) simp_all

lemma list_all_segment:
  assumes le: "n + m \<le> length s"
  shows "list_all P (take m (drop n s)) \<longleftrightarrow> (\<forall>i. n \<le> i \<and> i < n + m \<longrightarrow> P (s ! i))"
proof -
  have "list_all P (take m (drop n s)) \<longleftrightarrow> (\<forall>j<m. P (s ! (n + j)))"
    using le by (simp add: list_all_length)
  also have "\<dots> \<longleftrightarrow> (\<forall>i. n \<le> i \<and> i < n + m \<longrightarrow> P (s ! i))"
  proof (intro iffI allI impI)
    fix i assume a: "\<forall>j<m. P (s ! (n + j))" and i: "n \<le> i \<and> i < n + m"
    then have "i - n < m" by arith
    with a have "P (s ! (n + (i - n)))" by blast
    with i show "P (s ! i)" by simp
  next
    fix j assume a: "\<forall>i. n \<le> i \<and> i < n + m \<longrightarrow> P (s ! i)" and j: "j < m"
    then show "P (s ! (n + j))" by simp
  qed
  finally show ?thesis .
qed

text \<open>The pattern, read off position by position: five runs of hex digits and four hyphens.\<close>

lemma isUUID_segments:
  "isUUID s \<longleftrightarrow>
     length s = 36 \<and>
     s ! 8 = CHR ''-'' \<and> s ! 13 = CHR ''-'' \<and> s ! 18 = CHR ''-'' \<and> s ! 23 = CHR ''-'' \<and>
     (\<forall>i. 0 \<le> i \<and> i < 0 + 8 \<longrightarrow> isHexDigit (s ! i)) \<and>
     (\<forall>i. 9 \<le> i \<and> i < 9 + 4 \<longrightarrow> isHexDigit (s ! i)) \<and>
     (\<forall>i. 14 \<le> i \<and> i < 14 + 4 \<longrightarrow> isHexDigit (s ! i)) \<and>
     (\<forall>i. 19 \<le> i \<and> i < 19 + 4 \<longrightarrow> isHexDigit (s ! i)) \<and>
     (\<forall>i. 24 \<le> i \<and> i < 24 + 12 \<longrightarrow> isHexDigit (s ! i))"
proof (cases "length s = 36")
  case False
  have "isUUID s \<Longrightarrow> length s = 36"
    unfolding isUUID_def uuidRegex_def MatchString_HexDigits MatchString_Literal
      MatchString.simps(1)
    by auto
  with False show ?thesis by blast
next
  case True
  have seg: "list_all isHexDigit (take m (drop n s)) \<longleftrightarrow>
      (\<forall>i. n \<le> i \<and> i < n + m \<longrightarrow> isHexDigit (s ! i))" if "n + m \<le> 36" for n m
    using list_all_segment[of n m s isHexDigit] that True by simp
  have seg0: "list_all isHexDigit (take 8 s) \<longleftrightarrow>
      (\<forall>i. 0 \<le> i \<and> i < 0 + 8 \<longrightarrow> isHexDigit (s ! i))"
    using seg[of 0 8] by simp
  have "isUUID s \<longleftrightarrow>
     list_all isHexDigit (take 8 s) \<and> s ! 8 = CHR ''-'' \<and>
     list_all isHexDigit (take 4 (drop 9 s)) \<and> s ! 13 = CHR ''-'' \<and>
     list_all isHexDigit (take 4 (drop 14 s)) \<and> s ! 18 = CHR ''-'' \<and>
     list_all isHexDigit (take 4 (drop 19 s)) \<and> s ! 23 = CHR ''-'' \<and>
     list_all isHexDigit (take 12 (drop 24 s))"
    unfolding isUUID_def uuidRegex_def MatchString_HexDigits MatchString_Literal
      MatchString.simps(1)
    using True by simp
  then show ?thesis
    unfolding seg0 seg[of 9 4, simplified] seg[of 14 4, simplified] seg[of 19 4, simplified]
      seg[of 24 12, simplified]
    using True by simp blast
qed

text \<open>
  Claim C5, as stated, makes the length and the four hyphens sufficient. They are not:
  the string below has length 36 and exactly four hyphens, at positions 8, 13, 18 and 23,
  and is not accepted, since \<open>z\<close> is not a hexadecimal digit.
\<close>

theorem isUUID_shape_only_counterexample:
  "length nonHexSample = 36 \<and>
   nonHexSample ! 8 = CHR ''-'' \<and> nonHexSample ! 13 = CHR ''-'' \<and>
   nonHexSample ! 18 = CHR ''-'' \<and> nonHexSample ! 23 = CHR ''-'' \<and>
   count_list nonHexSample (CHR ''-'') = 4 \<and>
   \<not> isUUID nonHexSample"
  by (simp add: nonHexSample_def isUUID_def uuidRegex_def numeral_eq_Suc isHexDigit_def)

text \<open>
  Claim C5, amended. \<open>isUUID s\<close> is true if and only if \<open>s\<close> has length 36, has a hyphen
  at each of the positions 8, 13, 18 and 23, and has a hexadecimal digit (\<open>0-9\<close>, \<open>a-f\<close>
  or \<open>A-F\<close>) at each of the other 32 positions; so any deviation in length or in a
  separator gives false.
\<close>

theorem isUUID_iff:
  "isUUID s \<longleftrightarrow>
     length s = 36 \<and>
     s ! 8 = CHR ''-'' \<and> s ! 13 = CHR ''-'' \<and> s ! 18 = CHR ''-'' \<and> s ! 23 = CHR ''-'' \<and>
     (\<forall>i<36. i \<notin> {8, 13, 18, 23} \<longrightarrow> isHexDigit (s ! i))"
proof -
  have "(\<forall>i<36. i \<notin> {8, 13, 18, 23} \<longrightarrow> P i) \<longleftrightarrow>
     (\<forall>i. 0 \<le> i \<and> i < 0 + 8 \<longrightarrow> P i) \<and>
     (\<forall>i. 9 \<le> i \<and> i < 9 + 4 \<longrightarrow> P i) \<and>
     (\<forall>i. 14 \<le> i \<and> i < 14 + 4 \<longrightarrow> P i) \<and>
     (\<forall>i. 19 \<le> i \<and> i < 19 + 4 \<longrightarrow> P i) \<and>
     (\<forall>i. 24 \<le> i \<and> i < 24 + 12 \<longrightarrow> P i)" for P :: "nat \<Rightarrow> bool"
  proof (intro iffI conjI allI impI)
    fix i :: nat
    assume seg: "(\<forall>i. 0 \<le> i \<and> i < 0 + 8 \<longrightarrow> P i) \<and>
     (\<forall>i. 9 \<le> i \<and> i < 9 + 4 \<longrightarrow> P i) \<and>
     (\<forall>i. 14 \<le> i \<and> i < 14 + 4 \<longrightarrow> P i) \<and>
     (\<forall>i. 19 \<le> i \<and> i < 19 + 4 \<longrightarrow> P i) \<and>
     (\<forall>i. 24 \<le> i \<and> i < 24 + 12 \<longrightarrow> P i)"
      and i: "i < 36" "i \<notin> {8, 13, 18, 23}"
    from i consider "0 \<le> i \<and> i < 0 + 8" | "9 \<le> i \<and> i < 9 + 4" | "14 \<le> i \<and> i < 14 + 4"
      | "19 \<le> i \<and> i < 19 + 4" | "24 \<le> i \<and> i < 24 + 12"
      by (simp only: insert_iff empty_iff) arith
    then show "P i"
      using seg by cases blast+
  qed simp_all
  then show ?thesis
    unfolding isUUID_segments by simp
qed

theorem isUUID_iff_witness:
  "isUUID uuidLower \<and> isUUID uuidUpper \<and>
   length uuidLower = 36 \<and> uuidLower ! 8 = CHR ''-'' \<and> isHexDigit (uuidUpper ! 35) \<and>
   \<not> isUUID ''d9a16f24-9e15-43a7-afd0-baa96a7e5ef'' \<and>
   \<not> isUUID ''d9a16f24-9e15-43a7-afd0-baa96a7e5ef3a'' \<and>
   \<not> isUUID ''d9a16f24_9e15-43a7-afd0-baa96a7e5ef3'' \<and>
   \<not> isUUID nonHexSample"
proof -
  have lower: "isUUID uuidLower"
    by (simp add: uuidLower_def isUUID_def uuidRegex_def numeral_eq_Suc isHexDigit_def)
  have upper: "isUUID uuidUpper"
    by (simp add: uuidUpper_def isUUID_def uuidRegex_def numeral_eq_Suc isHexDigit_def)
  have "length uuidLower = 36 \<and> uuidLower ! 8 = CHR ''-''"
    using lower isUUID_iff[of uuidLower] by blast
  moreover have "isHexDigit (uuidUpper ! 35)"
    using upper isUUID_iff[of uuidUpper] by simp
  moreover have "\<not> isUUID ''d9a16f24-9e15-43a7-afd0-baa96a7e5ef''"
    using isUUID_iff[of "''d9a16f24-9e15-43a7-afd0-baa96a7e5ef''"] by simp
  moreover have "\<not> isUUID ''d9a16f24-9e15-43a7-afd0-baa96a7e5ef3a''"
    using isUUID_iff[of "''d9a16f24-9e15-43a7-afd0-baa96a7e5ef3a''"] by simp
  moreover have "\<not> isUUID ''d9a16f24_9e15-43a7-afd0-baa96a7e5ef3''"
    using isUUID_iff[of "''d9a16f24_9e15-43a7-afd0-baa96a7e5ef3''"] by simp
  moreover have "\<not> isUUID nonHexSample"
  proof -
    have "\<not> isHexDigit (nonHexSample ! 0)"
      by (simp add: nonHexSample_def isHexDigit_def)
    then show ?thesis
      using isUUID_iff[of nonHexSample] by auto
  qed
  ultimately show ?thesis
    using lower upper by blast
qed

end
